theory Spec2Isabelle
  imports Complex_Main "HOL-Library.Char_ord" "HOL-Library.List_Lexorder"
    "HOL-Library.Product_Lexorder" "HOL-Library.Log_Nat"
begin

section \<open>Python values, errors and dictionaries\<close>

text \<open>
  The analyzer is Python on top of pandas. An exception is a value of \<open>py_error\<close>, a
  function that may raise returns \<open>py_error + 'a\<close> with \<open>Inl\<close> for the exception. A JSON
  number is a Python \<open>int\<close> or \<open>float\<close>. A float is an IEEE binary64 number; the model holds
  a finite one by its exact rational value, and \<open>fl\<close> below rounds the exact result of an
  operation to the nearest double as the hardware does. Infinities and NaN are not values of
  the model (the one infinity the code writes itself, the start value of the minimum, is
  modelled by \<open>None\<close>): a result of magnitude \<open>2 ^ 1024\<close> or more is outside it.
\<close>

datatype py_error =
  KeyError string | TypeError | ValueError | ZeroDivisionError | IndexError | AttributeError
  | JSONDecodeError

datatype pynum = PInt int | PFloat rat

fun num_val :: "pynum \<Rightarrow> rat" where
  "num_val (PInt i) = of_int i"
| "num_val (PFloat r) = r"

text \<open>\<open>int(x)\<close> of a number truncates towards zero.\<close>

fun py_int :: "pynum \<Rightarrow> int" where
  "py_int (PInt i) = i"
| "py_int (PFloat r) = (if 0 \<le> r then \<lfloor>r\<rfloor> else \<lceil>r\<rceil>)"

text \<open>\<open>round(x, 2)\<close> and the format \<open>.2f\<close> round to the nearest hundredth, ties to even.\<close>

definition round_half_even :: "rat \<Rightarrow> int" where
  "round_half_even y =
     (let f = \<lfloor>y\<rfloor>; d = y - of_int f
      in if d < 1 / 2 then f else if 1 / 2 < d then f + 1 else if even f then f else f + 1)"

definition py_round2 :: "rat \<Rightarrow> rat" where
  "py_round2 x = of_int (round_half_even (x * 100)) / 100"

text \<open>
  Rounding to the nearest double, ties to the even mantissa. \<open>exponent p q\<close> is the binary
  exponent of the fraction \<open>p / q\<close> (the floor of its binary logarithm), and the doubles
  near it are the multiples of \<open>2 ^ (e - 52)\<close>, with \<open>e\<close> that exponent and at least
  \<open>- 1022\<close> (below it the doubles are subnormal, multiples of \<open>2 ^ (- 1074)\<close>). The
  exponent has no upper bound here: the numbers of a payload are taken small enough for
  no operation to overflow. \<open>float(x)\<close> of a JSON number is the double nearest to it.
\<close>

definition exponent :: "int \<Rightarrow> int \<Rightarrow> int" where
  "exponent p q =
     (let d = bitlen \<bar>p\<bar> - bitlen q
      in if (2 :: rat) powi d * of_int q \<le> of_int \<bar>p\<bar> then d else d - 1)"

definition nearest :: "int \<Rightarrow> int \<Rightarrow> rat" where
  "nearest p q =
     (let u = 2 powi (max (exponent p q) (- 1022) - 52)
      in of_int (round_half_even (of_int p / (of_int q * u))) * u)"

definition fl :: "rat \<Rightarrow> rat" where
  "fl x = (case quotient_of x of (p, q) \<Rightarrow> nearest p q)"

definition py_float :: "pynum \<Rightarrow> rat" where
  "py_float v = fl (num_val v)"

definition digit :: "nat \<Rightarrow> char" where
  "digit n = ''0123456789'' ! (n mod 10)"

fun str_nat :: "nat \<Rightarrow> string" where
  "str_nat n = (if n < 10 then [digit n] else str_nat (n div 10) @ [digit n])"

declare str_nat.simps [simp del]

definition str_int :: "int \<Rightarrow> string" where
  "str_int i = (if i < 0 then ''-'' @ str_nat (nat (- i)) else str_nat (nat i))"

definition fmt_2f :: "rat \<Rightarrow> string" where
  "fmt_2f x =
     (let n = nat (round_half_even (\<bar>x\<bar> * 100))
      in (if x < 0 then ''-'' else '''') @ str_nat (n div 100) @ ''.''
         @ [digit (n div 10), digit n])"

text \<open>
  A Python \<open>dict\<close> keeps insertion order: an association list with distinct keys.
  \<open>d[k] = v\<close> overwrites in place or appends; \<open>d.get(k)\<close> is \<open>map_of d k\<close>.
\<close>

fun dict_set :: "('k \<times> 'v) list \<Rightarrow> 'k \<Rightarrow> 'v \<Rightarrow> ('k \<times> 'v) list" where
  "dict_set [] k v = [(k, v)]"
| "dict_set ((k', v') # d) k v = (if k' = k then (k, v) # d else (k', v') # dict_set d k v)"

definition dict_of :: "('k \<times> 'v) list \<Rightarrow> ('k \<times> 'v) list" where
  "dict_of kvs = foldl (\<lambda>d (k, v). dict_set d k v) [] kvs"

fun uniq :: "'a list \<Rightarrow> 'a list \<Rightarrow> 'a list" where
  "uniq seen [] = []"
| "uniq seen (x # xs) = (if x \<in> set seen then uniq seen xs else x # uniq (x # seen) xs)"

fun ebind :: "'e + 'a \<Rightarrow> ('a \<Rightarrow> 'e + 'b) \<Rightarrow> 'e + 'b" where
  "ebind (Inl e) f = Inl e"
| "ebind (Inr x) f = f x"

fun mapE :: "('a \<Rightarrow> 'e + 'b) \<Rightarrow> 'a list \<Rightarrow> 'e + 'b list" where
  "mapE f [] = Inr []"
| "mapE f (x # xs) = ebind (f x) (\<lambda>y. ebind (mapE f xs) (\<lambda>ys. Inr (y # ys)))"

section \<open>Data frames\<close>

text \<open>
  A pandas \<open>DataFrame\<close> is a list of column names and a list of rows, each row holding one
  cell per column, in column order. A cell is a missing value (NaN), a number or a
  string. Conversion of columns to a common dtype (an
  integer column that has a missing value becomes a float column) is not modelled: a cell
  keeps the value the program stored. The columns \<open>Label\<close>, \<open>Metric\<close>, \<open>Endpoint\<close> and
  \<open>Error\<close> hold strings in every table this program builds, and its value columns hold
  numbers or NaN; \<open>int\<close> and \<open>float\<close> of a string cell are modelled by the \<open>ValueError\<close>
  that Python raises for a string that is not a numeral.
\<close>

datatype cell = CNaN | CNum pynum | CStr string

type_synonym pyrow = "(string \<times> cell) list"

record dataframe =
  columns :: "string list"
  rows :: "pyrow list"

definition DataFrame_empty :: dataframe where
  "DataFrame_empty = \<lparr>columns = [], rows = []\<rparr>"

definition row_get :: "pyrow \<Rightarrow> string \<Rightarrow> cell" where
  "row_get r c = (case map_of r c of None \<Rightarrow> CNaN | Some v \<Rightarrow> v)"

text \<open>\<open>pd.DataFrame(list of dicts)\<close>: the columns are the keys in order of first appearance,
  a key a row lacks is NaN there.\<close>

definition DataFrame :: "pyrow list \<Rightarrow> dataframe" where
  "DataFrame rs =
     (let cols = uniq [] (concat (map (map fst) rs))
      in \<lparr>columns = cols, rows = map (\<lambda>r. map (\<lambda>c. (c, row_get r c)) cols) rs\<rparr>)"

definition df_empty :: "dataframe \<Rightarrow> bool" where
  "df_empty df \<longleftrightarrow> columns df = [] \<or> rows df = []"

text \<open>\<open>df[c]\<close>, \<open>df[[c1, ..., cn]]\<close>, \<open>df[df[c] == v]\<close> and \<open>s.iloc[0]\<close>.\<close>

definition df_col :: "dataframe \<Rightarrow> string \<Rightarrow> py_error + cell list" where
  "df_col df c =
     (if c \<in> set (columns df) then Inr (map (\<lambda>r. row_get r c) (rows df)) else Inl (KeyError c))"

definition df_select :: "dataframe \<Rightarrow> string list \<Rightarrow> py_error + dataframe" where
  "df_select df cs =
     (case filter (\<lambda>c. c \<notin> set (columns df)) cs of
        [] \<Rightarrow> Inr \<lparr>columns = cs, rows = map (\<lambda>r. map (\<lambda>c. (c, row_get r c)) cs) (rows df)\<rparr>
      | c # _ \<Rightarrow> Inl (KeyError c))"

definition df_where :: "dataframe \<Rightarrow> string \<Rightarrow> cell \<Rightarrow> py_error + dataframe" where
  "df_where df c v =
     (if c \<in> set (columns df)
      then Inr \<lparr>columns = columns df, rows = filter (\<lambda>r. row_get r c = v) (rows df)\<rparr>
      else Inl (KeyError c))"

definition iloc0 :: "'a list \<Rightarrow> py_error + 'a" where
  "iloc0 xs = (case xs of [] \<Rightarrow> Inl IndexError | x # _ \<Rightarrow> Inr x)"

text \<open>The formats \<open>f"{int(v)}"\<close> and \<open>f"{float(v):.2f}"\<close> of a cell.\<close>

fun fmt_int_cell :: "cell \<Rightarrow> py_error + string" where
  "fmt_int_cell CNaN = Inl ValueError"
| "fmt_int_cell (CNum n) = Inr (str_int (py_int n))"
| "fmt_int_cell (CStr s) = Inl ValueError"

fun fmt_float_cell :: "cell \<Rightarrow> py_error + string" where
  "fmt_float_cell CNaN = Inr ''nan''"
| "fmt_float_cell (CNum n) = Inr (fmt_2f (num_val n))"
| "fmt_float_cell (CStr s) = Inl ValueError"

section \<open>comparison/aggregate\_comparison.py\<close>

definition metric_order :: "string list" where
  "metric_order =
     [''Average Response Time (ms)'', ''Error %'', ''Throughput (req/sec)'',
      ''Min Response Time (ms)'', ''Max Response Time (ms)'', ''Median Response Time (ms)'',
      ''90th Percentile (ms)'', ''95th Percentile (ms)'', ''99th Percentile (ms)'']"

text \<open>\<open>{row['Metric']: row['Value'] for _, row in df.iterrows()}\<close>: a later row overwrites
  an earlier one with the same metric.\<close>

definition metric_map :: "dataframe \<Rightarrow> py_error + (cell \<times> cell) list" where
  "metric_map df =
     (if rows df = [] then Inr []
      else if ''Metric'' \<notin> set (columns df) then Inl (KeyError ''Metric'')
      else if ''Value'' \<notin> set (columns df) then Inl (KeyError ''Value'')
      else Inr (dict_of (map (\<lambda>r. (row_get r ''Metric'', row_get r ''Value'')) (rows df))))"

definition aggregate_cell :: "(cell \<times> cell) list \<Rightarrow> string \<Rightarrow> py_error + cell" where
  "aggregate_cell m metric =
     (case map_of m (CStr metric) of
        None \<Rightarrow> Inr (CStr '''')
      | Some val \<Rightarrow> ebind (fmt_float_cell val) (\<lambda>s. Inr (CStr s)))"

fun aggregate_row ::
  "pyrow \<Rightarrow> string \<Rightarrow> ((cell \<times> cell) list \<times> string) list \<Rightarrow> py_error + pyrow" where
  "aggregate_row row metric [] = Inr row"
| "aggregate_row row metric ((m, name) # rest) =
     ebind (aggregate_cell m metric) (\<lambda>c. aggregate_row (dict_set row name c) metric rest)"

definition compare_aggregate_stats ::
  "dataframe option list \<Rightarrow> string list \<Rightarrow> py_error + dataframe" where
  "compare_aggregate_stats dfs report_names =
     (if length dfs = 0 \<or> report_names = [] \<or> length dfs \<noteq> length report_names
      then Inr DataFrame_empty
      else if \<exists>df \<in> set dfs. (case df of None \<Rightarrow> True | Some d \<Rightarrow> df_empty d)
      then Inr DataFrame_empty
      else ebind (mapE (\<lambda>df. case df of None \<Rightarrow> Inr [] | Some d \<Rightarrow> metric_map d) dfs)
        (\<lambda>metric_maps.
           ebind (mapE (\<lambda>metric. aggregate_row [(''Metric'', CStr metric)] metric
                                   (zip metric_maps report_names)) metric_order)
             (\<lambda>rs. Inr (DataFrame rs))))"

section \<open>comparison/endpoint\_comparison.py\<close>

fun foldE :: "('b \<Rightarrow> 'a \<Rightarrow> 'e + 'b) \<Rightarrow> 'b \<Rightarrow> 'a list \<Rightarrow> 'e + 'b" where
  "foldE f acc [] = Inr acc"
| "foldE f acc (x # xs) = ebind (f acc x) (\<lambda>acc'. foldE f acc' xs)"

definition endpoint_metrics :: "(string \<times> string) list" where
  "endpoint_metrics =
     [(''#Samples'', ''#Samples''),
      (''Average'', ''Average Response Time (ms)''),
      (''Error %'', ''Error %''),
      (''Transactions/s'', ''Throughput (req/sec)''),
      (''Median'', ''Median Response Time (ms)''),
      (''90th pct'', ''90th Percentile (ms)''),
      (''95th pct'', ''95th Percentile (ms)''),
      (''99th pct'', ''99th Percentile (ms)'')]"

text \<open>The labels of the first report in their order, then the new labels of each later
  report.\<close>

definition endpoint_labels :: "dataframe list \<Rightarrow> py_error + cell list" where
  "endpoint_labels dfs =
     (case dfs of
        [] \<Rightarrow> Inl IndexError
      | d # ds \<Rightarrow>
          ebind (df_col d ''Label'')
            (\<lambda>l0. foldE (\<lambda>labels df. ebind (df_col df ''Label'')
                             (\<lambda>ls. Inr (labels @ filter (\<lambda>l. l \<notin> set labels) (uniq [] ls))))
                    (uniq [] l0) ds))"

definition endpoint_cell :: "cell \<Rightarrow> string \<Rightarrow> dataframe \<Rightarrow> py_error + cell" where
  "endpoint_cell label metric_key df =
     ebind (df_col df ''Label'')
       (\<lambda>ls. if label \<in> set ls
              then ebind (if metric_key \<in> set (columns df)
                          then ebind (df_where df ''Label'' label)
                                 (\<lambda>d. ebind (df_col d metric_key)
                                   (\<lambda>vs. ebind (iloc0 vs) (\<lambda>v. Inr (Some v))))
                          else Inr None)
                     (\<lambda>v. case v of
                             None \<Rightarrow> Inr (CStr '''')
                           | Some x \<Rightarrow>
                               ebind (if metric_key = ''#Samples'' then fmt_int_cell x
                                      else fmt_float_cell x)
                                 (\<lambda>s. Inr (CStr s)))
              else Inr (CStr ''''))"

definition endpoint_row :: "cell \<Rightarrow> (dataframe \<times> string) list \<Rightarrow> py_error + pyrow" where
  "endpoint_row label dns =
     foldE (\<lambda>row ((metric_key, metric_display), (df, name)).
              ebind (endpoint_cell label metric_key df)
                (\<lambda>val. Inr (dict_set row (metric_display @ '' ('' @ name @ '')'') val)))
       [(''Endpoint'', label)] (List.product endpoint_metrics dns)"

definition compare_endpoint_stats ::
  "dataframe option list \<Rightarrow> string list \<Rightarrow> py_error + dataframe" where
  "compare_endpoint_stats dfs report_names =
     (if dfs = [] \<or> report_names = [] \<or> length dfs \<noteq> length report_names
      then Inr DataFrame_empty
      else if \<exists>df \<in> set dfs. (case df of None \<Rightarrow> True | Some d \<Rightarrow> df_empty d)
      then Inr DataFrame_empty
      else let ds = concat (map (\<lambda>df. case df of None \<Rightarrow> [] | Some d \<Rightarrow> [d]) dfs)
           in ebind (endpoint_labels ds)
                (\<lambda>labels. ebind (mapE (\<lambda>label. endpoint_row label (zip ds report_names)) labels)
                   (\<lambda>rs. Inr (DataFrame rs))))"

section \<open>Example inputs\<close>

definition sample_table :: dataframe where
  "sample_table =
     \<lparr>columns = [''Label'', ''#Samples''],
      rows = [[(''Label'', CStr ''GET /a''), (''#Samples'', CNum (PInt 10))]]\<rparr>"

section \<open>utils/table\_parsing.py: the statistics payload\<close>

text \<open>
  \<open>statistics.json\<close> maps each label to an object of numeric fields (\<open>sampleCount\<close>,
  \<open>meanResTime\<close>, ...); the one field the code reads as an array is \<open>rawResponses\<close>.
  An entry is the dictionary of its numeric fields together with that optional array,
  the payload is the dictionary of the entries in file order.
\<close>

record entry =
  attrs :: "(string \<times> pynum) list"
  rawResponses :: "pynum list option"

type_synonym stats = "(string \<times> entry) list"

definition COLUMN_MAPPING :: "(string \<times> string) list" where
  "COLUMN_MAPPING =
     [(''Label'', ''Label''),
      (''sampleCount'', ''#Samples''),
      (''errorCount'', ''FAIL''),
      (''errorPct'', ''Error %''),
      (''meanResTime'', ''Average''),
      (''minResTime'', ''Min''),
      (''maxResTime'', ''Max''),
      (''medianResTime'', ''Median''),
      (''pct1ResTime'', ''90th pct''),
      (''pct2ResTime'', ''95th pct''),
      (''pct3ResTime'', ''99th pct''),
      (''throughput'', ''Transactions/s''),
      (''receivedKBytesPerSec'', ''Received''),
      (''sentKBytesPerSec'', ''Sent'')]"

definition COLUMN_ORDER :: "string list" where
  "COLUMN_ORDER =
     [''Label'', ''#Samples'', ''FAIL'', ''Error %'', ''Average'', ''Min'', ''Max'', ''Median'',
      ''90th pct'', ''95th pct'', ''99th pct'', ''Transactions/s'', ''Received'', ''Sent'']"

text \<open>\<open>data.get(k, d)\<close>, \<open>str.lower\<close> and \<open>str.startswith\<close>.\<close>

definition get_num :: "entry \<Rightarrow> string \<Rightarrow> pynum \<Rightarrow> pynum" where
  "get_num data k d = (case map_of (attrs data) k of None \<Rightarrow> d | Some v \<Rightarrow> v)"

definition lower_char :: "char \<Rightarrow> char" where
  "lower_char c =
     (let n = (of_char c :: nat) in if 65 \<le> n \<and> n \<le> 90 then char_of (n + 32) else c)"

definition lower :: "string \<Rightarrow> string" where
  "lower s = map lower_char s"

definition startswith :: "string \<Rightarrow> string \<Rightarrow> bool" where
  "startswith s p \<longleftrightarrow> take (length p) s = p"

definition endswith :: "string \<Rightarrow> string \<Rightarrow> bool" where
  "endswith s p \<longleftrightarrow> length p \<le> length s \<and> drop (length s - length p) s = p"

subsection \<open>calculate\_total\_statistics\<close>

text \<open>The counters of the loop; \<open>min_response_time = None\<close> is \<open>float('inf')\<close>.\<close>

record totals =
  total_samples :: int
  total_errors :: int
  total_response_time :: rat
  min_response_time :: "rat option"
  max_response_time :: rat
  total_bytes :: rat
  total_sent_bytes :: rat
  all_response_times :: "pynum list"

definition totals_init :: totals where
  "totals_init =
     \<lparr>total_samples = 0, total_errors = 0, total_response_time = 0,
      min_response_time = None, max_response_time = 0, total_bytes = 0,
      total_sent_bytes = 0, all_response_times = []\<rparr>"

definition min_inf :: "rat option \<Rightarrow> rat option \<Rightarrow> rat option" where
  "min_inf a b =
     (case a of None \<Rightarrow> b | Some x \<Rightarrow> (case b of None \<Rightarrow> Some x | Some y \<Rightarrow> Some (min x y)))"

definition totals_step :: "totals \<Rightarrow> string \<times> entry \<Rightarrow> totals" where
  "totals_step t le =
     (case le of (label, data) \<Rightarrow>
        if lower label \<noteq> ''total''
        then (let samples = py_int (get_num data ''sampleCount'' (PInt 0))
              in \<lparr>total_samples = total_samples t + samples,
                  total_errors = total_errors t + py_int (get_num data ''errorCount'' (PInt 0)),
                  total_response_time = fl (total_response_time t
                    + fl (py_float (get_num data ''meanResTime'' (PInt 0)) * fl (of_int samples))),
                  min_response_time = min_inf (min_response_time t)
                    (map_option py_float (map_of (attrs data) ''minResTime'')),
                  max_response_time = max (max_response_time t)
                    (py_float (get_num data ''maxResTime'' (PInt 0))),
                  total_bytes = fl (total_bytes t
                    + py_float (get_num data ''receivedBytes'' (PInt 0))),
                  total_sent_bytes = fl (total_sent_bytes t
                    + py_float (get_num data ''sentBytes'' (PInt 0))),
                  all_response_times = all_response_times t
                    @ (case rawResponses data of None \<Rightarrow> [] | Some rs \<Rightarrow> rs)\<rparr>)
        else t)"

definition round_num :: "pynum \<Rightarrow> pynum" where
  "round_num x = (case x of PInt i \<Rightarrow> PInt i | PFloat r \<Rightarrow> PFloat (py_round2 (fl r)))"

definition pct_index :: "nat \<Rightarrow> rat \<Rightarrow> nat" where
  "pct_index n q = nat \<lfloor>fl (fl (of_nat n) * fl q)\<rfloor>"

definition py_max :: "rat list \<Rightarrow> py_error + rat" where
  "py_max xs = (case xs of [] \<Rightarrow> Inl ValueError | x # ys \<Rightarrow> Inr (foldl max x ys))"

definition max_reported :: "stats \<Rightarrow> string \<Rightarrow> py_error + pynum" where
  "max_reported stats_data k =
     ebind (py_max (map (\<lambda>(label, data). py_float (get_num data k (PInt 0))) stats_data))
       (\<lambda>m. Inr (PFloat (py_round2 m)))"

definition percentiles :: "stats \<Rightarrow> pynum list \<Rightarrow> py_error + pynum \<times> pynum \<times> pynum" where
  "percentiles stats_data all =
     (if all \<noteq> []
      then (let sorted = sort_key py_float all; n = length sorted
            in Inr (round_num (sorted ! pct_index n (9 / 10)),
                    round_num (sorted ! pct_index n (95 / 100)),
                    round_num (sorted ! pct_index n (99 / 100))))
      else ebind (max_reported stats_data ''pct1ResTime'')
             (\<lambda>p90. ebind (max_reported stats_data ''pct2ResTime'')
               (\<lambda>p95. ebind (max_reported stats_data ''pct3ResTime'')
                 (\<lambda>p99. Inr (p90, p95, p99)))))"

definition calculate_total_statistics :: "stats \<Rightarrow> py_error + entry option" where
  "calculate_total_statistics stats_data =
     (let t = foldl totals_step totals_init stats_data
      in if 0 < total_samples t
         then (let avg_response_time =
                     py_round2 (fl (total_response_time t / fl (of_int (total_samples t))));
                   error_percent =
                     py_round2 (fl (fl (of_int (total_errors t) / of_int (total_samples t)) * 100))
               in if fl (max_response_time t / 1000) = 0 then Inl ZeroDivisionError
                  else (let throughput =
                              py_round2 (fl (fl (of_int (total_samples t))
                                             / fl (max_response_time t / 1000)))
                        in ebind (percentiles stats_data (all_response_times t))
                             (\<lambda>(pct_90, pct_95, pct_99).
                                Inr (Some
                                  \<lparr>attrs =
                                     [(''sampleCount'', PInt (total_samples t)),
                                      (''errorCount'', PInt (total_errors t)),
                                      (''errorPct'', PFloat error_percent),
                                      (''meanResTime'', PFloat avg_response_time),
                                      (''minResTime'',
                                         (case min_response_time t of
                                            None \<Rightarrow> PInt 0
                                          | Some m \<Rightarrow> PFloat (py_round2 m))),
                                      (''maxResTime'', PFloat (py_round2 (max_response_time t))),
                                      (''pct1ResTime'', pct_90),
                                      (''pct2ResTime'', pct_95),
                                      (''pct3ResTime'', pct_99),
                                      (''throughput'', PFloat throughput),
                                      (''receivedBytes'', PFloat (py_round2 (total_bytes t))),
                                      (''sentBytes'', PFloat (py_round2 (total_sent_bytes t)))],
                                   rawResponses = None\<rparr>))))
         else Inr None)"

subsection \<open>is\_http\_endpoint and sort\_endpoints\<close>

definition is_http_endpoint :: "string \<Rightarrow> bool" where
  "is_http_endpoint label \<longleftrightarrow>
     (\<exists>p \<in> set [''GET '', ''POST '', ''PUT '', ''DELETE '', ''PATCH '']. startswith label p)"

definition get_sort_key :: "string \<Rightarrow> nat \<times> string" where
  "get_sort_key label =
     (if label = ''Total'' then (0, label)
      else if is_http_endpoint label then (2, label)
      else (1, label))"

text \<open>
  The key column is added, the frame is sorted by it and the column is dropped again. A
  label that is not a string has no \<open>startswith\<close>. Python compares the key tuples
  componentwise and the strings by code point, which is the lexicographic order of the
  bytes of their UTF-8 encoding.
\<close>

definition sort_endpoints :: "dataframe \<Rightarrow> py_error + dataframe" where
  "sort_endpoints df =
     (if ''Label'' \<notin> set (columns df) then Inr df
      else ebind (mapE (\<lambda>r. case row_get r ''Label'' of
                               CStr label \<Rightarrow> Inr (get_sort_key label, r)
                             | _ \<Rightarrow> Inl AttributeError) (rows df))
             (\<lambda>keyed. Inr \<lparr>columns = filter (\<lambda>c. c \<noteq> ''sort_key'') (columns df),
                            rows = map (\<lambda>(k, r). filter (\<lambda>(c, v). c \<noteq> ''sort_key'') r)
                                     (sort_key fst keyed)\<rparr>))"

subsection \<open>create\_errors\_table\<close>

text \<open>
  The items of \<open>top5ErrorsBySamplerTable\<close> in \<open>dashboard.js\<close>: each item is read through
  \<open>item.get('data')\<close>, which is a list \<open>[label, #samples, #errors, error1, #error1, ...]\<close>
  of strings and numbers, or is not a list (\<open>None\<close> here). The whole loop over the items
  sits in one \<open>try\<close>: \<open>int\<close> of a string that is not a numeral ends the loop and keeps
  what was collected.
\<close>

datatype jv = JNum pynum | JStr string

type_synonym item = "jv list option"

fun collect_error_info :: "(jv \<times> jv) list \<Rightarrow> item list \<Rightarrow> (jv \<times> jv) list" where
  "collect_error_info error_info [] = error_info"
| "collect_error_info error_info (None # its) = collect_error_info error_info its"
| "collect_error_info error_info (Some d # its) =
     (if 5 \<le> length d
      then (case d ! 2 of
              JStr s \<Rightarrow> error_info
            | JNum n \<Rightarrow>
                if 0 < py_int n
                then collect_error_info (dict_set error_info (d ! 0) (d ! 3)) its
                else collect_error_info error_info its)
      else collect_error_info error_info its)"

definition jv_cell :: "jv \<Rightarrow> cell" where
  "jv_cell v = (case v of JNum n \<Rightarrow> CNum n | JStr s \<Rightarrow> CStr s)"

definition error_text :: "(jv \<times> jv) list \<Rightarrow> string \<Rightarrow> jv" where
  "error_text error_info label =
     (let t = (case map_of error_info (JStr label) of
                 None \<Rightarrow> JStr ''Unknown Error'' | Some e \<Rightarrow> e)
      in if t = JStr '''' then JStr ''Unknown Error'' else t)"

definition error_row :: "(jv \<times> jv) list \<Rightarrow> string \<Rightarrow> entry \<Rightarrow> pyrow" where
  "error_row error_info label data =
     [(''Endpoint'', CStr label),
      (''Request #'', CNum (PInt (py_int (get_num data ''sampleCount'' (PInt 0))))),
      (''Error #'', CNum (PInt (py_int (get_num data ''errorCount'' (PInt 0))))),
      (''Error'', jv_cell (error_text error_info label)),
      (''Error %'', CNum (PFloat (py_round2 (py_float (get_num data ''errorPct'' (PInt 0))))))]"

definition error_rows :: "(jv \<times> jv) list \<Rightarrow> stats \<Rightarrow> pyrow list" where
  "error_rows error_info stats_data =
     concat (map (\<lambda>(label, data).
        if lower label \<noteq> ''total'' \<and> is_http_endpoint label
           \<and> 0 < py_int (get_num data ''errorCount'' (PInt 0))
        then [error_row error_info label data] else []) stats_data)"

text \<open>
  An entry under the key \<open>__file__\<close> is taken for the path of \<open>statistics.json\<close> and
  handed to \<open>os.path.dirname\<close>, which raises \<open>TypeError\<close> on a dictionary. Otherwise
  \<open>dashboard.js\<close> is looked up under the working directory; \<open>top5\<close> holds the items of its
  top-errors table, \<open>[]\<close> when the file, the table or its JSON is missing.
\<close>

definition create_errors_table :: "item list \<Rightarrow> stats \<Rightarrow> py_error + dataframe option" where
  "create_errors_table top5 stats_data =
     (if ''__file__'' \<in> set (map fst stats_data) then Inl TypeError
      else (let error_info = collect_error_info [] top5;
                rs = error_rows error_info stats_data
            in if rs \<noteq> [] then Inr (Some (DataFrame rs)) else Inr None))"

subsection \<open>parse\_jmeter\_tables\<close>

text \<open>\<open>os.path.dirname\<close> and \<open>os.path.join\<close> with a relative second part, on POSIX paths.\<close>

definition dirname :: "string \<Rightarrow> string" where
  "dirname p =
     (let head = rev (dropWhile (\<lambda>c. c \<noteq> CHR ''/'') (rev p))
      in if head \<noteq> [] \<and> (\<exists>c \<in> set head. c \<noteq> CHR ''/'')
         then rev (dropWhile (\<lambda>c. c = CHR ''/'') (rev head)) else head)"

definition path_join :: "string \<Rightarrow> string \<Rightarrow> string" where
  "path_join a b = (if a = [] \<or> endswith a ''/'' then a @ b else a @ ''/'' @ b)"

text \<open>
  The file system maps a path to what \<open>json.load\<close> makes of the file there: nothing when
  the file does not exist, a payload, or a file that is not JSON.
\<close>

datatype json_file = Malformed | Payload stats

record env =
  files :: "string \<Rightarrow> json_file option"
  top5_items :: "item list"

record tables =
  endpoint_stats :: "dataframe option"
  aggregate_summary :: "dataframe option"
  errors :: "dataframe option"

definition no_tables :: tables where
  "no_tables = \<lparr>endpoint_stats = None, aggregate_summary = None, errors = None\<rparr>"

definition stats_cell :: "string \<Rightarrow> pynum \<Rightarrow> cell" where
  "stats_cell old_col v =
     (if old_col \<in> set [''sampleCount'', ''errorCount''] then CNum (PInt (py_int v))
      else CNum (PFloat (py_round2 (py_float v))))"

definition stats_row :: "string \<Rightarrow> entry \<Rightarrow> pyrow" where
  "stats_row label data =
     foldl (\<lambda>row (old_col, new_col).
              if old_col = ''Label'' then dict_set row new_col (CStr label)
              else (case map_of (attrs data) old_col of
                      Some v \<Rightarrow> dict_set row new_col (stats_cell old_col v)
                    | None \<Rightarrow> row))
       [] COLUMN_MAPPING"

definition metric_value :: "entry \<Rightarrow> string \<Rightarrow> cell" where
  "metric_value total_stats k =
     CNum (PFloat (py_round2 (py_float (get_num total_stats k (PInt 0)))))"

definition aggregate_metrics :: "entry \<Rightarrow> (string \<times> cell) list" where
  "aggregate_metrics total_stats =
     [(''Average Response Time (ms)'', metric_value total_stats ''meanResTime''),
      (''Median Response Time (ms)'',
         CNum (PFloat (py_round2 (py_float (get_num total_stats ''medianResTime''
           (get_num total_stats ''Median'' (PInt 0))))))),
      (''Min Response Time (ms)'', metric_value total_stats ''minResTime''),
      (''Max Response Time (ms)'', metric_value total_stats ''maxResTime''),
      (''Throughput (req/sec)'', metric_value total_stats ''throughput''),
      (''Error %'', metric_value total_stats ''errorPct''),
      (''90th Percentile (ms)'', metric_value total_stats ''pct1ResTime''),
      (''95th Percentile (ms)'', metric_value total_stats ''pct2ResTime''),
      (''99th Percentile (ms)'', metric_value total_stats ''pct3ResTime'')]"

definition aggregate_table :: "entry \<Rightarrow> dataframe" where
  "aggregate_table total_stats =
     \<lparr>columns = [''Metric'', ''Value''],
      rows = map (\<lambda>(m, v). [(''Metric'', CStr m), (''Value'', v)])
               (aggregate_metrics total_stats)\<rparr>"

definition truthy :: "entry \<Rightarrow> bool" where
  "truthy data \<longleftrightarrow> attrs data \<noteq> [] \<or> rawResponses data \<noteq> None"

definition with_total :: "stats \<Rightarrow> py_error + stats" where
  "with_total loaded =
     (if ''Total'' \<notin> set (map fst loaded)
      then ebind (calculate_total_statistics loaded)
             (\<lambda>total_stats. case total_stats of
                               None \<Rightarrow> Inr loaded
                             | Some ts \<Rightarrow> Inr (dict_set loaded ''Total'' ts))
      else Inr loaded)"

definition build_tables :: "item list \<Rightarrow> stats \<Rightarrow> py_error + tables" where
  "build_tables top5 stats_data =
     (let stats_rows = map (\<lambda>(label, data). stats_row label data) stats_data
      in if stats_rows \<noteq> []
         then ebind (df_select (DataFrame stats_rows) COLUMN_ORDER)
                (\<lambda>stats_df. ebind (sort_endpoints stats_df)
                  (\<lambda>sorted_df.
                     ebind (create_errors_table top5 stats_data)
                       (\<lambda>errs. Inr \<lparr>endpoint_stats = Some sorted_df,
                                     aggregate_summary =
                                       (case map_of stats_data ''Total'' of
                                          None \<Rightarrow> None
                                        | Some ts \<Rightarrow>
                                            if truthy ts then Some (aggregate_table ts)
                                            else None),
                                     errors = errs\<rparr>)))
         else Inr no_tables)"

definition statistics_json_path :: "string \<Rightarrow> string" where
  "statistics_json_path report_path =
     (if endswith report_path ''statistics.json'' then report_path
      else path_join (dirname report_path) ''statistics.json'')"

definition parse_jmeter_tables :: "env \<Rightarrow> string \<Rightarrow> py_error + tables" where
  "parse_jmeter_tables e report_path =
     (case files e (statistics_json_path report_path) of
        None \<Rightarrow> Inr no_tables
      | Some Malformed \<Rightarrow> Inl JSONDecodeError
      | Some (Payload loaded) \<Rightarrow> ebind (with_total loaded) (build_tables (top5_items e)))"

section \<open>comparison/error\_comparison.py\<close>

text \<open>
  \<open>sorted\<close> of a set of cells: strings by code point, numbers by value, \<open>TypeError\<close> on a
  mix of both. (Where the sort leaves a NaN among numbers depends on its comparisons; it
  is placed as 0 here. The tables of this program hold strings in these columns.)
\<close>

definition is_str :: "cell \<Rightarrow> bool" where
  "is_str c = (case c of CStr s \<Rightarrow> True | _ \<Rightarrow> False)"

definition sorted_cells :: "cell list \<Rightarrow> py_error + cell list" where
  "sorted_cells xs =
     (if \<forall>c \<in> set xs. is_str c
      then Inr (map CStr (sort (concat (map (\<lambda>c. case c of CStr s \<Rightarrow> [s] | _ \<Rightarrow> []) xs))))
      else if \<forall>c \<in> set xs. \<not> is_str c
      then Inr (sort_key (\<lambda>c. case c of CNum n \<Rightarrow> num_val n | _ \<Rightarrow> 0) xs)
      else Inl TypeError)"

text \<open>Arithmetic and comparison of cells: NaN propagates, a string raises.\<close>

definition cell_gt0 :: "cell \<Rightarrow> py_error + bool" where
  "cell_gt0 c = (case c of CNum n \<Rightarrow> Inr (0 < num_val n) | CNaN \<Rightarrow> Inr False
                 | CStr s \<Rightarrow> Inl TypeError)"

definition cell_sub :: "cell \<Rightarrow> cell \<Rightarrow> py_error + cell" where
  "cell_sub a b =
     (case (a, b) of
        (CStr s, _) \<Rightarrow> Inl TypeError
      | (_, CStr s) \<Rightarrow> Inl TypeError
      | (CNum (PInt i), CNum (PInt j)) \<Rightarrow> Inr (CNum (PInt (i - j)))
      | (CNum x, CNum y) \<Rightarrow> Inr (CNum (PFloat (fl (py_float x - py_float y))))
      | _ \<Rightarrow> Inr CNaN)"

definition cell_pct :: "cell \<Rightarrow> cell \<Rightarrow> py_error + cell" where
  "cell_pct count tot =
     ebind (cell_gt0 tot)
       (\<lambda>pos. if pos
               then (case (count, tot) of
                       (CNum c, CNum t) \<Rightarrow>
                         Inr (CNum (PFloat (fl (fl (py_float c / py_float t) * 100))))
                     | (CStr s, _) \<Rightarrow> Inl TypeError
                     | _ \<Rightarrow> Inr CNaN)
               else Inr (CNum (PInt 0)))"

text \<open>The rows of one endpoint in a report, or \<open>pd.DataFrame()\<close> when it has none.\<close>

definition errors_of :: "dataframe \<Rightarrow> cell \<Rightarrow> py_error + dataframe" where
  "errors_of df endpoint =
     ebind (df_col df ''Endpoint'')
       (\<lambda>eps. if endpoint \<in> set eps then df_where df ''Endpoint'' endpoint
               else Inr DataFrame_empty)"

definition error_count :: "dataframe \<Rightarrow> cell \<Rightarrow> py_error + cell" where
  "error_count errs error =
     (if df_empty errs then Inr (CNum (PInt 0))
      else ebind (df_col errs ''Error'')
             (\<lambda>es. if error \<in> set es
                    then ebind (df_where errs ''Error'' error)
                           (\<lambda>d. ebind (df_col d ''Count'') iloc0)
                    else Inr (CNum (PInt 0))))"

definition error_total :: "dataframe \<Rightarrow> py_error + cell" where
  "error_total errs =
     (if \<not> df_empty errs \<and> ''Total'' \<in> set (columns errs)
      then ebind (df_col errs ''Total'') iloc0
      else Inr (CNum (PInt 0)))"

definition compare_error :: "dataframe \<Rightarrow> dataframe \<Rightarrow> cell \<Rightarrow> cell \<Rightarrow> py_error + pyrow" where
  "compare_error errors1 errors2 endpoint error =
     ebind (error_count errors1 error) (\<lambda>count1.
     ebind (error_count errors2 error) (\<lambda>count2.
     ebind (error_total errors1) (\<lambda>total1.
     ebind (error_total errors2) (\<lambda>total2.
     ebind (cell_pct count1 total1) (\<lambda>pct1.
     ebind (cell_pct count2 total2) (\<lambda>pct2.
     ebind (cell_sub count2 count1) (\<lambda>count_diff.
     ebind (cell_sub pct2 pct1) (\<lambda>pct_diff.
       Inr [(''Endpoint'', endpoint),
            (''Error Description'', error),
            (''Report 1 Count'', count1),
            (''Report 1 %'', pct1),
            (''Report 2 Count'', count2),
            (''Report 2 %'', pct2),
            (''Count Difference'', count_diff),
            (''% Difference'', pct_diff)]))))))))"

text \<open>The two \<open>try\<close> blocks: a failing error description is skipped, a failing endpoint
  is left with the rows it had reached.\<close>

definition endpoint_errors :: "dataframe \<Rightarrow> dataframe \<Rightarrow> cell \<Rightarrow> pyrow list" where
  "endpoint_errors df1 df2 endpoint =
     (case ebind (errors_of df1 endpoint) (\<lambda>errors1.
           ebind (errors_of df2 endpoint) (\<lambda>errors2.
           ebind (df_col errors1 ''Error'') (\<lambda>e1.
           ebind (df_col errors2 ''Error'') (\<lambda>e2.
           ebind (sorted_cells (remdups (e1 @ e2))) (\<lambda>descriptions.
             Inr (concat (map (\<lambda>error. case compare_error errors1 errors2 endpoint error of
                                          Inl exn \<Rightarrow> [] | Inr row \<Rightarrow> [row]) descriptions)))))))
      of Inl exn \<Rightarrow> [] | Inr rs \<Rightarrow> rs)"

definition fmt_pct :: "cell \<Rightarrow> cell" where
  "fmt_pct x = (case x of CNum n \<Rightarrow> CStr (fmt_2f (num_val n) @ ''%'')
                | CNaN \<Rightarrow> CStr ''nan%'' | CStr s \<Rightarrow> CStr s)"

definition format_numeric_cols :: "dataframe \<Rightarrow> dataframe" where
  "format_numeric_cols df =
     \<lparr>columns = columns df,
      rows = map (map (\<lambda>(c, v). if c \<in> set [''Report 1 %'', ''Report 2 %'', ''% Difference'']
                                then (c, fmt_pct v) else (c, v))) (rows df)\<rparr>"

definition compare_errors :: "dataframe option \<Rightarrow> dataframe option \<Rightarrow> py_error + dataframe" where
  "compare_errors d1 d2 =
     (case (d1, d2) of
        (Some df1, Some df2) \<Rightarrow>
          if df_empty df1 \<or> df_empty df2 then Inr DataFrame_empty
          else ebind (df_col df1 ''Endpoint'') (\<lambda>ep1.
               ebind (df_col df2 ''Endpoint'') (\<lambda>ep2.
               ebind (sorted_cells (remdups (ep1 @ ep2))) (\<lambda>endpoints.
                 let comparison_data = concat (map (endpoint_errors df1 df2) endpoints)
                 in if comparison_data = [] then Inr DataFrame_empty
                    else Inr (format_numeric_cols (DataFrame comparison_data)))))
      | _ \<Rightarrow> Inr DataFrame_empty)"

text \<open>A report directory that holds \<open>index.html\<close> and nothing else.\<close>

definition no_files :: "string \<Rightarrow> json_file option" where
  "no_files = (\<lambda>p. None)"

definition bare_report :: env where
  "bare_report = \<lparr>files = no_files, top5_items = []\<rparr>"

text \<open>A payload written without \<open>medianResTime\<close>: a total and one sampler.\<close>

definition no_median_entry :: entry where
  "no_median_entry =
     \<lparr>attrs = [(''sampleCount'', PInt 10), (''errorCount'', PInt 0), (''errorPct'', PFloat 0),
               (''meanResTime'', PFloat 5), (''minResTime'', PFloat 5), (''maxResTime'', PFloat 5),
               (''pct1ResTime'', PFloat 5), (''pct2ResTime'', PFloat 5), (''pct3ResTime'', PFloat 5),
               (''throughput'', PFloat 2), (''receivedKBytesPerSec'', PFloat 1),
               (''sentKBytesPerSec'', PFloat 1)],
      rawResponses = None\<rparr>"

definition no_median_files :: "string \<Rightarrow> json_file option" where
  "no_median_files =
     (\<lambda>p. if p = ''report/statistics.json''
          then Some (Payload [(''Total'', no_median_entry), (''GET /a'', no_median_entry)])
          else None)"

definition no_median_report :: env where
  "no_median_report = \<lparr>files = no_median_files, top5_items = []\<rparr>"

text \<open>Two payloads with errors, on different endpoints, and the top-errors table of the
  first.\<close>

definition failing_entry :: entry where
  "failing_entry =
     \<lparr>attrs = [(''sampleCount'', PInt 100), (''errorCount'', PInt 5), (''errorPct'', PFloat 5)],
      rawResponses = None\<rparr>"

definition top5_a :: "item list" where
  "top5_a = [Some [JStr ''GET /a'', JNum (PInt 100), JNum (PInt 5), JStr ''Timeout'',
                   JNum (PInt 5)]]"

definition errors_a :: dataframe where
  "errors_a =
     \<lparr>columns = [''Endpoint'', ''Request #'', ''Error #'', ''Error'', ''Error %''],
      rows = [[(''Endpoint'', CStr ''GET /a''), (''Request #'', CNum (PInt 100)),
               (''Error #'', CNum (PInt 5)), (''Error'', CStr ''Timeout''),
               (''Error %'', CNum (PFloat 5))]]\<rparr>"

definition errors_b :: dataframe where
  "errors_b =
     \<lparr>columns = [''Endpoint'', ''Request #'', ''Error #'', ''Error'', ''Error %''],
      rows = [[(''Endpoint'', CStr ''GET /b''), (''Request #'', CNum (PInt 100)),
               (''Error #'', CNum (PInt 5)), (''Error'', CStr ''Unknown Error''),
               (''Error %'', CNum (PFloat 5))]]\<rparr>"

text \<open>The same two error tables under the column names \<open>compare_errors\<close> reads.\<close>

definition counted_a :: dataframe where
  "counted_a =
     \<lparr>columns = [''Endpoint'', ''Error'', ''Count'', ''Total''],
      rows = [[(''Endpoint'', CStr ''GET /a''), (''Error'', CStr ''Timeout''),
               (''Count'', CNum (PInt 5)), (''Total'', CNum (PInt 100))]]\<rparr>"

definition counted_b :: dataframe where
  "counted_b =
     \<lparr>columns = [''Endpoint'', ''Error'', ''Count'', ''Total''],
      rows = [[(''Endpoint'', CStr ''GET /b''), (''Error'', CStr ''Timeout''),
               (''Count'', CNum (PInt 5)), (''Total'', CNum (PInt 100))]]\<rparr>"

section \<open>What the claims speak about\<close>

text \<open>The metric names in the order of the aggregate table of \<open>parse_jmeter_tables\<close>.\<close>

definition canonical_metric_names :: "string list" where
  "canonical_metric_names =
     [''Average Response Time (ms)'', ''Median Response Time (ms)'', ''Min Response Time (ms)'',
      ''Max Response Time (ms)'', ''Throughput (req/sec)'', ''Error %'',
      ''90th Percentile (ms)'', ''95th Percentile (ms)'', ''99th Percentile (ms)'']"

definition metric_column :: "py_error + dataframe \<Rightarrow> cell list" where
  "metric_column res =
     (case res of Inl e \<Rightarrow> [] | Inr d \<Rightarrow> map (\<lambda>r. row_get r ''Metric'') (rows d))"

text \<open>
  An aggregate table has the columns \<open>Metric\<close> and \<open>Value\<close>, at least one row, and numbers
  (or NaN) as values. The value a report has for a metric is that of its last row with
  this metric.
\<close>

definition is_aggregate_table :: "dataframe \<Rightarrow> bool" where
  "is_aggregate_table d \<longleftrightarrow>
     ''Metric'' \<in> set (columns d) \<and> ''Value'' \<in> set (columns d) \<and> rows d \<noteq> []
     \<and> (\<forall>r \<in> set (rows d). \<not> is_str (row_get r ''Value''))"

definition report_value :: "dataframe \<Rightarrow> string \<Rightarrow> cell option" where
  "report_value d metric =
     map_of (rev (map (\<lambda>r. (row_get r ''Metric'', row_get r ''Value'')) (rows d))) (CStr metric)"

definition fmt_value :: "cell \<Rightarrow> string" where
  "fmt_value v = (case v of CNum n \<Rightarrow> fmt_2f (num_val n) | CNaN \<Rightarrow> ''nan'' | CStr s \<Rightarrow> s)"

definition aggregate_comparison :: "dataframe list \<Rightarrow> string list \<Rightarrow> dataframe" where
  "aggregate_comparison ds names =
     \<lparr>columns = ''Metric'' # names,
      rows = map (\<lambda>metric. (''Metric'', CStr metric)
                    # map (\<lambda>(d, name). (name, case report_value d metric of
                                                None \<Rightarrow> CStr ''''
                                              | Some v \<Rightarrow> CStr (fmt_value v)))
                        (zip ds names))
               metric_order\<rparr>"

text \<open>A second aggregate table, of a report that has two metrics only.\<close>

definition short_aggregate :: dataframe where
  "short_aggregate =
     \<lparr>columns = [''Metric'', ''Value''],
      rows = [[(''Metric'', CStr ''Error %''), (''Value'', CNum (PFloat (5 / 2)))],
              [(''Metric'', CStr ''Average Response Time (ms)''), (''Value'', CNum (PInt 7))]]\<rparr>"

text \<open>
  The entries the aggregation loop reads (every label but \<open>total\<close> in any case), their
  sample and error counts, and the sums and extremes the claims name.
\<close>

definition non_aggregate :: "stats \<Rightarrow> stats" where
  "non_aggregate stats_data = filter (\<lambda>(label, data). lower label \<noteq> ''total'') stats_data"

definition sample_count :: "entry \<Rightarrow> int" where
  "sample_count data = py_int (get_num data ''sampleCount'' (PInt 0))"

definition error_count_of :: "entry \<Rightarrow> int" where
  "error_count_of data = py_int (get_num data ''errorCount'' (PInt 0))"

definition mean_res_time :: "entry \<Rightarrow> rat" where
  "mean_res_time data = py_float (get_num data ''meanResTime'' (PInt 0))"

definition max_res_time :: "entry \<Rightarrow> rat" where
  "max_res_time data = py_float (get_num data ''maxResTime'' (PInt 0))"

definition sample_sum :: "stats \<Rightarrow> int" where
  "sample_sum stats_data = sum_list (map (\<lambda>(label, data). sample_count data) (non_aggregate stats_data))"

definition error_sum :: "stats \<Rightarrow> int" where
  "error_sum stats_data = sum_list (map (\<lambda>(label, data). error_count_of data) (non_aggregate stats_data))"

definition has_positive_max :: "stats \<Rightarrow> bool" where
  "has_positive_max stats_data = list_ex (\<lambda>(label, data). 0 < max_res_time data) (non_aggregate stats_data)"

text \<open>A payload of one sampler with ten samples that all took 0 ms.\<close>

definition zero_max_entry :: entry where
  "zero_max_entry =
     \<lparr>attrs = [(''sampleCount'', PInt 10), (''errorCount'', PInt 0), (''meanResTime'', PFloat 0),
               (''minResTime'', PFloat 0), (''maxResTime'', PFloat 0)],
      rawResponses = None\<rparr>"


text \<open>
  The sum of mean times sample count over these entries, accumulated in payload order in
  double arithmetic, and the largest \<open>maxResTime\<close> among them (0 when none is positive).
\<close>

definition weighted_time_sum :: "stats \<Rightarrow> rat" where
  "weighted_time_sum stats_data =
     foldl (\<lambda>acc (label, data).
              fl (acc + fl (mean_res_time data * fl (of_int (sample_count data)))))
       0 (non_aggregate stats_data)"

definition peak_time :: "stats \<Rightarrow> rat" where
  "peak_time stats_data =
     foldl max 0 (map (\<lambda>(label, data). max_res_time data) (non_aggregate stats_data))"

text \<open>The \<open>minResTime\<close> values that entries report, and their minimum when there is one.\<close>

fun present :: "'a option list \<Rightarrow> 'a list" where
  "present [] = []"
| "present (None # os) = present os"
| "present (Some v # os) = v # present os"

definition reported_mins :: "stats \<Rightarrow> rat list" where
  "reported_mins stats_data =
     present (map (\<lambda>(label, data). map_option py_float (map_of (attrs data) ''minResTime''))
                (non_aggregate stats_data))"

definition min_time :: "stats \<Rightarrow> rat option" where
  "min_time stats_data =
     (case reported_mins stats_data of [] \<Rightarrow> None | v # vs \<Rightarrow> Some (Min (set (v # vs))))"

text \<open>Payloads without a total: two samplers, and one sampler that was never sampled
  (every field of the canonical columns present).\<close>

definition sampler_a :: entry where
  "sampler_a =
     \<lparr>attrs = [(''sampleCount'', PInt 10), (''errorCount'', PInt 1), (''meanResTime'', PFloat 20),
               (''minResTime'', PFloat 5), (''maxResTime'', PFloat 100)],
      rawResponses = None\<rparr>"

definition sampler_b :: entry where
  "sampler_b =
     \<lparr>attrs = [(''sampleCount'', PInt 30), (''errorCount'', PInt 2), (''meanResTime'', PFloat 40),
               (''minResTime'', PFloat 8), (''maxResTime'', PFloat 250)],
      rawResponses = None\<rparr>"
















section \<open>Auxiliary facts\<close>

subsection \<open>Dictionaries and data frames\<close>

lemma mapE_Inr: "(\<And>x. x \<in> set xs \<Longrightarrow> f x = Inr (g x)) \<Longrightarrow> mapE f xs = Inr (map g xs)"
  by (induction xs) auto

lemma dict_set_fresh: "k \<notin> set (map fst d) \<Longrightarrow> dict_set d k v = d @ [(k, v)]"
  by (induction d k v rule: dict_set.induct) auto

lemma uniq_seen: "set xs \<subseteq> set seen \<Longrightarrow> uniq seen xs = []"
  by (induction xs arbitrary: seen) auto

lemma uniq_cong: "set s1 = set s2 \<Longrightarrow> uniq s1 xs = uniq s2 xs"
proof (induction xs arbitrary: s1 s2)
  case Nil then show ?case by simp
next
  case (Cons x xs)
  have "uniq (x # s1) xs = uniq (x # s2) xs" using Cons.prems by (intro Cons.IH) simp
  moreover have "uniq s1 xs = uniq s2 xs" using Cons.prems by (intro Cons.IH)
  ultimately show ?case using Cons.prems by simp
qed

lemma uniq_distinct_append:
  "distinct xs \<Longrightarrow> set xs \<inter> set seen = {} \<Longrightarrow> set ys \<subseteq> set xs \<union> set seen \<Longrightarrow> uniq seen (xs @ ys) = xs"
proof (induction xs arbitrary: seen)
  case Nil then show ?case by (simp add: uniq_seen)
next
  case (Cons x xs)
  have "uniq (x # seen) (xs @ ys) = xs"
    using Cons.prems by (intro Cons.IH) auto
  then show ?case using Cons.prems by simp
qed

lemma row_get_member: "distinct (map fst r) \<Longrightarrow> (k, v) \<in> set r \<Longrightarrow> row_get r k = v"
  by (simp add: row_get_def)

lemma row_rebuild: "distinct (map fst r) \<Longrightarrow> map (\<lambda>c. (c, row_get r c)) (map fst r) = r"
proof -
  assume d: "distinct (map fst r)"
  have "map (\<lambda>c. (c, row_get r c)) (map fst r) = map (\<lambda>p. (fst p, row_get r (fst p))) r"
    by (simp add: comp_def)
  also have "\<dots> = map (\<lambda>p. p) r"
  proof (rule map_cong [OF refl])
    fix p assume "p \<in> set r"
    then have "(fst p, snd p) \<in> set r" by simp
    then have "row_get r (fst p) = snd p" by (rule row_get_member [OF d])
    then show "(fst p, row_get r (fst p)) = p" by (simp add: prod_eq_iff)
  qed
  finally show ?thesis by simp
qed

lemma DataFrame_uniform:
  assumes "rs \<noteq> []" "distinct cols" "\<And>r. r \<in> set rs \<Longrightarrow> map fst r = cols"
  shows "DataFrame rs = \<lparr>columns = cols, rows = rs\<rparr>"
proof -
  obtain r0 rest where rs: "rs = r0 # rest" using assms(1) by (cases rs) auto
  have "set (concat (map (map fst) rest)) \<subseteq> set cols"
    using assms(3) rs by auto
  then have u: "uniq [] (concat (map (map fst) rs)) = cols"
    using assms rs uniq_distinct_append [of cols "[]" "concat (map (map fst) rest)"] by simp
  have "map (\<lambda>r. map (\<lambda>c. (c, row_get r c)) cols) rs = rs"
  proof (rule map_idI)
    fix r assume "r \<in> set rs"
    then have "map fst r = cols" using assms(3) by simp
    then show "map (\<lambda>c. (c, row_get r c)) cols = r"
      using row_rebuild [of r] assms(2) by simp
  qed
  with u show ?thesis by (simp add: DataFrame_def)
qed


subsection \<open>The aggregate comparison\<close>

lemma map_of_dict_set: "map_of (dict_set d k v) = (map_of d)(k \<mapsto> v)"
  by (induction d k v rule: dict_set.induct) auto

lemma map_of_foldl_dict_set:
  "map_of (foldl (\<lambda>d (k, v). dict_set d k v) d kvs) = map_of (rev kvs @ d)"
proof (induction kvs arbitrary: d)
  case Nil then show ?case by simp
next
  case (Cons a kvs)
  obtain k v where a: "a = (k, v)" by (cases a)
  have "map_of (rev kvs @ dict_set d k v) = map_of (rev kvs @ (k, v) # d)"
    by (simp add: map_of_dict_set)
  then show ?case using Cons.IH [of "dict_set d k v"] a by simp
qed

lemma map_of_dict_of: "map_of (dict_of kvs) = map_of (rev kvs)"
  using map_of_foldl_dict_set [of "[]" kvs] by (simp add: dict_of_def)

lemma metric_map_aggregate:
  assumes "is_aggregate_table d"
  shows "metric_map d
         = Inr (dict_of (map (\<lambda>r. (row_get r ''Metric'', row_get r ''Value'')) (rows d)))"
  using assms by (simp add: metric_map_def is_aggregate_table_def)

lemma aggregate_cell_value:
  assumes "is_aggregate_table d"
  shows "aggregate_cell (dict_of (map (\<lambda>r. (row_get r ''Metric'', row_get r ''Value'')) (rows d)))
           metric
         = Inr (case report_value d metric of None \<Rightarrow> CStr '''' | Some v \<Rightarrow> CStr (fmt_value v))"
proof (cases "report_value d metric")
  case None
  then show ?thesis by (simp add: aggregate_cell_def map_of_dict_of report_value_def)
next
  case (Some v)
  then have "(CStr metric, v)
             \<in> set (rev (map (\<lambda>r. (row_get r ''Metric'', row_get r ''Value'')) (rows d)))"
    unfolding report_value_def by (rule map_of_SomeD)
  then have "(CStr metric, v) \<in> set (map (\<lambda>r. (row_get r ''Metric'', row_get r ''Value'')) (rows d))"
    by (simp only: set_rev)
  then have "\<not> is_str v" using assms by (auto simp: is_aggregate_table_def)
  then have "fmt_float_cell v = Inr (fmt_value v)"
    by (cases v) (auto simp: is_str_def fmt_value_def)
  with Some show ?thesis
    by (simp add: aggregate_cell_def map_of_dict_of report_value_def)
qed

lemma aggregate_row_fresh:
  assumes "distinct (map snd mns)" "set (map snd mns) \<inter> set (map fst row) = {}"
    "\<And>m n. (m, n) \<in> set mns \<Longrightarrow> aggregate_cell m metric = Inr (g m)"
  shows "aggregate_row row metric mns = Inr (row @ map (\<lambda>(m, n). (n, g m)) mns)"
  using assms
proof (induction mns arbitrary: row)
  case Nil then show ?case by simp
next
  case (Cons a mns)
  obtain m n where a: "a = (m, n)" by (cases a)
  have c: "aggregate_cell m metric = Inr (g m)" by (rule Cons.prems(3) [of m n]) (simp add: a)
  have f: "dict_set row n (g m) = row @ [(n, g m)]"
    using Cons.prems(2) a by (intro dict_set_fresh) auto
  have ih: "aggregate_row (row @ [(n, g m)]) metric mns
        = Inr ((row @ [(n, g m)]) @ map (\<lambda>(m, n). (n, g m)) mns)"
  proof (rule Cons.IH)
    show "distinct (map snd mns)" using Cons.prems(1) by simp
    show "set (map snd mns) \<inter> set (map fst (row @ [(n, g m)])) = {}"
      using Cons.prems(1,2) a by auto
    show "\<And>m' n'. (m', n') \<in> set mns \<Longrightarrow> aggregate_cell m' metric = Inr (g m')"
    proof -
      fix m' n' assume "(m', n') \<in> set mns"
      then show "aggregate_cell m' metric = Inr (g m')"
        by (intro Cons.prems(3) [of m' n']) simp
    qed
  qed
  have "aggregate_row row metric ((m, n) # mns)
        = ebind (aggregate_cell m metric) (\<lambda>c. aggregate_row (dict_set row n c) metric mns)"
    by simp
  also have "\<dots> = aggregate_row (dict_set row n (g m)) metric mns"
    by (simp only: c ebind.simps)
  also have "\<dots> = aggregate_row (row @ [(n, g m)]) metric mns"
    by (simp only: f)
  also have "\<dots> = Inr (row @ map (\<lambda>(m, n). (n, g m)) ((m, n) # mns))"
    by (simp only: ih) simp
  finally show ?case by (simp only: a)
qed

subsection \<open>The sort policy\<close>















subsection \<open>The rows of the error table\<close>





section \<open>Comparison guards\<close>

text \<open>
  C9. When the number of tables differs from the number of report names, or when no
  table or no name is supplied, \<open>compare_endpoint_stats\<close> and \<open>compare_aggregate_stats\<close>
  both return the empty data frame, not an exception.
\<close>

theorem compare_mismatch_returns_empty:
  assumes "length dfs \<noteq> length report_names \<or> dfs = [] \<or> report_names = []"
  shows "compare_endpoint_stats dfs report_names = Inr DataFrame_empty
       \<and> compare_aggregate_stats dfs report_names = Inr DataFrame_empty"
  using assms by (auto simp: compare_endpoint_stats_def compare_aggregate_stats_def)

theorem compare_mismatch_returns_empty_witness:
  "length [Some sample_table, Some sample_table, Some sample_table] \<noteq> length [''v1'', ''v2'']
   \<and> compare_endpoint_stats [Some sample_table, Some sample_table, Some sample_table]
        [''v1'', ''v2''] = Inr DataFrame_empty
   \<and> compare_aggregate_stats [Some sample_table, Some sample_table, Some sample_table]
        [''v1'', ''v2''] = Inr DataFrame_empty"
  using compare_mismatch_returns_empty
    [of "[Some sample_table, Some sample_table, Some sample_table]" "[''v1'', ''v2'']"]
  by simp

section \<open>A missing statistics file\<close>

text \<open>
  C1, as the specification states it, fails: for a report path whose \<open>statistics.json\<close>
  is absent \<open>parse_jmeter_tables\<close> does not raise. In a report directory without the file
  it returns the three tables, all absent.
\<close>

theorem parse_missing_statistics_no_raise:
  "files bare_report (statistics_json_path ''report/index.html'') = None
   \<and> parse_jmeter_tables bare_report ''report/index.html'' = Inr no_tables"
  by (simp add: parse_jmeter_tables_def bare_report_def no_files_def)

text \<open>
  C1, amended. Whenever the statistics file is absent, at the path itself when it ends in
  \<open>statistics.json\<close> and otherwise beside it, \<open>parse_jmeter_tables\<close> logs the error and
  returns the table set with the endpoint table, the aggregate table and the error table
  all absent; it raises nothing.
\<close>

theorem parse_missing_statistics_all_absent:
  assumes "files e (statistics_json_path report_path) = None"
  shows "parse_jmeter_tables e report_path
         = Inr \<lparr>endpoint_stats = None, aggregate_summary = None, errors = None\<rparr>"
  using assms by (simp add: parse_jmeter_tables_def no_tables_def)

theorem parse_missing_statistics_all_absent_witness:
  "files bare_report (statistics_json_path ''report/index.html'') = None
   \<and> parse_jmeter_tables bare_report ''report/index.html''
       = Inr \<lparr>endpoint_stats = None, aggregate_summary = None, errors = None\<rparr>"
proof -
  have h: "files bare_report (statistics_json_path ''report/index.html'') = None"
    by (simp add: bare_report_def no_files_def)
  show ?thesis
    using h parse_missing_statistics_all_absent [OF h] by simp
qed

section \<open>The columns of the endpoint table\<close>

text \<open>
  C3 on a payload none of whose entries has \<open>medianResTime\<close>: the frame built from the rows
  has no \<open>Median\<close> column, the reordering \<open>stats_df[COLUMN_ORDER]\<close> raises \<open>KeyError\<close> and
  \<open>parse_jmeter_tables\<close> raises it again, where the claim asks for a table with a blank
  \<open>Median\<close> column.
\<close>

theorem parse_no_median_raises:
  "parse_jmeter_tables no_median_report ''report/index.html'' = Inl (KeyError ''Median'')"
  by code_simp

section \<open>The error comparison\<close>

text \<open>
  C2 on two error tables as \<open>create_errors_table\<close> builds them, the first with the row
  (GET /a, Timeout, 5 of 100), the second without GET /a: \<open>compare_errors\<close> returns the
  empty frame, where the claim asks for the row 5, 5.00%, 0, 0.00%, -5, -5.00%. It
  does so as well when the tables carry the columns \<open>Count\<close> and \<open>Total\<close> that it reads.
\<close>

theorem compare_errors_parser_tables_empty:
  "create_errors_table top5_a [(''GET /a'', failing_entry)] = Inr (Some errors_a)
   \<and> create_errors_table [] [(''GET /b'', failing_entry)] = Inr (Some errors_b)
   \<and> compare_errors (Some errors_a) (Some errors_b) = Inr DataFrame_empty
   \<and> compare_errors (Some errors_a) (Some errors_a) = Inr DataFrame_empty
   \<and> compare_errors (Some counted_a) (Some counted_b) = Inr DataFrame_empty"
  by code_simp

section \<open>The aggregate comparison\<close>

text \<open>
  C7, as the specification states it, fails in the order of the rows: for one aggregate
  table and one report name the \<open>Metric\<close> column of \<open>compare_aggregate_stats\<close> is not the
  list of metric names in the canonical order (that of the aggregate table).
\<close>

theorem compare_aggregate_stats_not_canonical_order:
  "metric_column (compare_aggregate_stats [Some (aggregate_table no_median_entry)] [''r1''])
   \<noteq> map CStr canonical_metric_names"
  by code_simp

text \<open>
  C7, amended. For every non-empty list of aggregate tables and as many report names,
  distinct and other than \<open>Metric\<close>, \<open>compare_aggregate_stats\<close> returns the frame with the
  columns \<open>Metric\<close> and one per report, whose rows are the nine metric names in the
  comparator's own order (Average Response Time, Error %, Throughput, Min, Max, Median,
  90th, 95th, 99th Percentile); the cell of a report is its value for the metric in the
  format \<open>.2f\<close>, and the empty string where the report has no row for the metric.
\<close>

theorem compare_aggregate_stats_custom_order:
  assumes ne: "ds \<noteq> []" and len: "length ds = length names"
    and agg: "\<forall>d \<in> set ds. is_aggregate_table d"
    and dist: "distinct names" and nm: "''Metric'' \<notin> set names"
  shows "compare_aggregate_stats (map Some ds) names = Inr (aggregate_comparison ds names)
       \<and> columns (aggregate_comparison ds names) = ''Metric'' # names
       \<and> metric_column (compare_aggregate_stats (map Some ds) names)
           = map CStr [''Average Response Time (ms)'', ''Error %'', ''Throughput (req/sec)'',
               ''Min Response Time (ms)'', ''Max Response Time (ms)'',
               ''Median Response Time (ms)'', ''90th Percentile (ms)'',
               ''95th Percentile (ms)'', ''99th Percentile (ms)'']"
proof -
  define mm where "mm = (\<lambda>d :: dataframe. dict_of (map (\<lambda>r. (row_get r ''Metric'', row_get r ''Value'')) (rows d)))"
  define cell_of where "cell_of = (\<lambda>(d :: dataframe) metric. case report_value d metric of
                                     None \<Rightarrow> CStr '''' | Some v \<Rightarrow> CStr (fmt_value v))"
  define g where "g = (\<lambda>metric (m :: (cell \<times> cell) list).
                         case map_of m (CStr metric) of
                           None \<Rightarrow> CStr '''' | Some v \<Rightarrow> CStr (fmt_value v))"
  define row_of where "row_of = (\<lambda>metric. (''Metric'', CStr metric)
                                   # map (\<lambda>(d, name). (name, cell_of d metric)) (zip ds names))"
  have g_mm: "g metric (mm d) = cell_of d metric" for metric and d :: dataframe
    by (simp add: g_def mm_def cell_of_def report_value_def map_of_dict_of)
  have cell: "aggregate_cell (mm d) metric = Inr (g metric (mm d))" if "d \<in> set ds" for d metric
  proof -
    have "is_aggregate_table d" using that agg by simp
    then have "aggregate_cell (mm d) metric = Inr (cell_of d metric)"
      unfolding mm_def cell_of_def by (rule aggregate_cell_value)
    then show ?thesis by (simp only: g_mm)
  qed
  have guard1: "\<not> (length (map Some ds) = 0 \<or> names = [] \<or> length (map Some ds) \<noteq> length names)"
    using ne len by auto
  have guard2: "\<not> (\<exists>df \<in> set (map Some ds). case df of None \<Rightarrow> True | Some d \<Rightarrow> df_empty d)"
    using agg by (auto simp: is_aggregate_table_def df_empty_def)
  have "mapE (\<lambda>df. case df of None \<Rightarrow> Inr [] | Some d \<Rightarrow> metric_map d) (map Some ds)
        = Inr (map (\<lambda>df. case df of None \<Rightarrow> [] | Some d \<Rightarrow> mm d) (map Some ds))"
  proof (rule mapE_Inr)
    fix x assume "x \<in> set (map Some ds)"
    then obtain d where "x = Some d" "d \<in> set ds" by auto
    then show "(case x of None \<Rightarrow> Inr [] | Some d \<Rightarrow> metric_map d)
               = Inr (case x of None \<Rightarrow> [] | Some d \<Rightarrow> mm d)"
      using metric_map_aggregate [of d] agg by (simp add: mm_def)
  qed
  then have maps: "mapE (\<lambda>df. case df of None \<Rightarrow> Inr [] | Some d \<Rightarrow> metric_map d) (map Some ds)
                   = Inr (map mm ds)"
    by (simp add: comp_def)
  have row: "aggregate_row [(''Metric'', CStr metric)] metric (zip (map mm ds) names)
             = Inr (row_of metric)" for metric
  proof -
    have "aggregate_row [(''Metric'', CStr metric)] metric (zip (map mm ds) names)
          = Inr ([(''Metric'', CStr metric)]
                 @ map (\<lambda>(m, n). (n, g metric m)) (zip (map mm ds) names))"
    proof (rule aggregate_row_fresh)
      show "distinct (map snd (zip (map mm ds) names))" using dist len by simp
      show "set (map snd (zip (map mm ds) names)) \<inter> set (map fst [(''Metric'', CStr metric)]) = {}"
        using nm len by simp
      fix m n assume "(m, n) \<in> set (zip (map mm ds) names)"
      then have "m \<in> set (map mm ds)" by (rule set_zip_leftD)
      then obtain d where "d \<in> set ds" "m = mm d" by auto
      then show "aggregate_cell m metric = Inr (g metric m)" using cell by simp
    qed
    moreover have "map (\<lambda>(m, n). (n, g metric m)) (zip (map mm ds) names)
                   = map (\<lambda>(d, name). (name, cell_of d metric)) (zip ds names)"
      by (simp add: zip_map1 g_mm case_prod_unfold)
    ultimately show ?thesis by (simp add: row_of_def)
  qed
  have rws: "mapE (\<lambda>metric. aggregate_row [(''Metric'', CStr metric)] metric
                               (zip (map mm ds) names)) metric_order
             = Inr (map row_of metric_order)"
    by (rule mapE_Inr) (rule row)
  have spec: "aggregate_comparison ds names
              = \<lparr>columns = ''Metric'' # names, rows = map row_of metric_order\<rparr>"
    by (simp add: aggregate_comparison_def row_of_def cell_of_def)
  have frame: "DataFrame (map row_of metric_order)
               = \<lparr>columns = ''Metric'' # names, rows = map row_of metric_order\<rparr>"
  proof (rule DataFrame_uniform)
    show "map row_of metric_order \<noteq> []" by (simp add: metric_order_def)
    show "distinct (''Metric'' # names)" using dist nm by simp
    fix r assume "r \<in> set (map row_of metric_order)"
    then obtain metric where "r = row_of metric" by auto
    then show "map fst r = ''Metric'' # names"
      using len by (simp add: row_of_def case_prod_unfold comp_def)
  qed
  have res: "compare_aggregate_stats (map Some ds) names = Inr (aggregate_comparison ds names)"
    unfolding compare_aggregate_stats_def
    by (simp only: guard1 guard2 if_False maps rws ebind.simps frame spec)
  have "map (\<lambda>r. row_get r ''Metric'') (map row_of metric_order) = map CStr metric_order"
    by (simp add: row_of_def row_get_def)
  then have "metric_column (Inr (aggregate_comparison ds names)) = map CStr metric_order"
    by (simp add: metric_column_def spec)
  then show ?thesis using res by (simp add: metric_order_def spec)
qed

theorem compare_aggregate_stats_custom_order_witness:
  "[aggregate_table no_median_entry, short_aggregate] \<noteq> []
   \<and> length [aggregate_table no_median_entry, short_aggregate] = length [''v1'', ''v2'']
   \<and> is_aggregate_table (aggregate_table no_median_entry) \<and> is_aggregate_table short_aggregate
   \<and> distinct [''v1'', ''v2''] \<and> ''Metric'' \<notin> set [''v1'', ''v2'']
   \<and> compare_aggregate_stats (map Some [aggregate_table no_median_entry, short_aggregate])
        [''v1'', ''v2'']
       = Inr (aggregate_comparison [aggregate_table no_median_entry, short_aggregate]
                [''v1'', ''v2''])"
proof -
  have h1: "[aggregate_table no_median_entry, short_aggregate] \<noteq> []" by simp
  have h2: "length [aggregate_table no_median_entry, short_aggregate] = length [''v1'', ''v2'']"
    by simp
  have h3: "\<forall>d \<in> set [aggregate_table no_median_entry, short_aggregate]. is_aggregate_table d"
    by code_simp
  have h4: "distinct [''v1'', ''v2'']" by simp
  have h5: "''Metric'' \<notin> set [''v1'', ''v2'']" by simp
  show ?thesis
    using compare_aggregate_stats_custom_order [OF h1 h2 h3 h4 h5] h1 h2 h3 h4 h5 by simp
qed

section \<open>The order of the endpoint table\<close>




section \<open>The error table\<close>




end
